theory Spec2Isabelle
  imports Complex_Main "HOL-Library.Multiset"
begin

section \<open>Values of a request\<close>

text \<open>
  The server parses a JSON body (\<^verbatim>\<open>express.json()\<close>) and hands the handlers
  \<^verbatim>\<open>req.body\<close> and \<^verbatim>\<open>req.params\<close>. A field of the body is a JSON scalar or is
  absent; reading an absent field gives \<^verbatim>\<open>undefined\<close>. \<open>JNum n\<close> stands for
  an integral number that JavaScript prints in plain decimal (magnitude below
  \<open>10^21\<close>); fractional numbers and nested arrays or objects as field values are
  outside this model. A \<open>char\<close> is one code unit of the JavaScript string; all
  code units of this program's own strings are below 256.
\<close>

datatype scalar = JUndefined | JNull | JBool bool | JNum int | JStr string

type_synonym json_object = "(string \<times> scalar) list"

text \<open>\<^verbatim>\<open>obj[key]\<close>: the last binding of a repeated key wins, as in \<^verbatim>\<open>JSON.parse\<close>.\<close>

definition field :: "json_object \<Rightarrow> string \<Rightarrow> scalar" where
  "field obj k = (case map_of (rev obj) k of None \<Rightarrow> JUndefined | Some v \<Rightarrow> v)"

record request =
  params_id :: string
  body :: json_object

subsection \<open>JavaScript conversions used by the validators\<close>

definition isDigit :: "char \<Rightarrow> bool" where
  "isDigit c = (c \<in> set ''0123456789'')"

text \<open>The regular expression \<^verbatim>\<open>[0-9]+\<close> against a whole string.\<close>

definition digits1 :: "string \<Rightarrow> bool" where
  "digits1 s = (s \<noteq> [] \<and> list_all isDigit s)"

definition digitValue :: "char \<Rightarrow> nat" where
  "digitValue c =
     (if isDigit c then of_char c - 48
      else if c \<in> set ''abcdef'' then of_char c - 87
      else of_char c - 55)"

definition natOfDigits :: "nat \<Rightarrow> string \<Rightarrow> nat" where
  "natOfDigits base ds = foldl (\<lambda>a c. a * base + digitValue c) 0 ds"

function decimalDigits :: "nat \<Rightarrow> string" where
  "decimalDigits n =
     (if n < 10 then [''0123456789'' ! n]
      else decimalDigits (n div 10) @ [''0123456789'' ! (n mod 10)])"
  by pat_completeness auto
termination
  by (relation "measure (\<lambda>n. n)") auto

declare decimalDigits.simps [simp del]

text \<open>\<^verbatim>\<open>String(n)\<close> for an integral number.\<close>

definition numberToString :: "int \<Rightarrow> string" where
  "numberToString n =
     (if n < 0 then CHR ''-'' # decimalDigits (nat (- n)) else decimalDigits (nat n))"

text \<open>
  The numeric value of a string (\<^verbatim>\<open>Number(s)\<close>, the StringNumericLiteral
  grammar): surrounding white space is dropped, the empty string is 0, a
  decimal literal may carry a sign, a fraction and an exponent, \<^verbatim>\<open>Infinity\<close>
  may carry a sign, and the prefixes \<^verbatim>\<open>0x\<close>, \<^verbatim>\<open>0o\<close>, \<^verbatim>\<open>0b\<close> take no sign.
  \<open>MV q\<close> is the mathematical value of the literal before it is rounded to a
  double.
\<close>

datatype numeric = NaN | MV rat | PlusInfinity | MinusInfinity

definition isStrWhiteSpace :: "char \<Rightarrow> bool" where
  "isStrWhiteSpace c =
     (c \<in> set [CHR 0x09, CHR 0x0A, CHR 0x0B, CHR 0x0C, CHR 0x0D, CHR 0x20, CHR 0xA0])"

definition trimString :: "string \<Rightarrow> string" where
  "trimString s = rev (dropWhile isStrWhiteSpace (rev (dropWhile isStrWhiteSpace s)))"

definition exponentPart :: "string \<Rightarrow> int option" where
  "exponentPart r =
     (case r of
        [] \<Rightarrow> Some 0
      | c # t \<Rightarrow>
          if c = CHR ''e'' \<or> c = CHR ''E'' then
            (case t of
               [] \<Rightarrow> None
             | s # ds \<Rightarrow>
                 if s = CHR ''-'' then
                   (if digits1 ds then Some (- int (natOfDigits 10 ds)) else None)
                 else if s = CHR ''+'' then
                   (if digits1 ds then Some (int (natOfDigits 10 ds)) else None)
                 else if digits1 t then Some (int (natOfDigits 10 t)) else None)
          else None)"

definition scale10 :: "rat \<Rightarrow> int \<Rightarrow> rat" where
  "scale10 m k = (if 0 \<le> k then m * 10 ^ nat k else m / 10 ^ nat (- k))"

definition strUnsignedDecimalLiteral :: "string \<Rightarrow> numeric" where
  "strUnsignedDecimalLiteral s =
     (if s = ''Infinity'' then PlusInfinity
      else
        let ip = takeWhile isDigit s;
            r1 = dropWhile isDigit s;
            dot = (r1 \<noteq> [] \<and> hd r1 = CHR ''.'');
            fp = (if dot then takeWhile isDigit (tl r1) else []);
            r2 = (if dot then dropWhile isDigit (tl r1) else r1)
        in if ip = [] \<and> fp = [] then NaN
           else (case exponentPart r2 of
                   None \<Rightarrow> NaN
                 | Some x \<Rightarrow>
                     MV (scale10 (of_nat (natOfDigits 10 (ip @ fp))) (x - int (length fp)))))"

definition negate :: "numeric \<Rightarrow> numeric" where
  "negate v =
     (case v of
        NaN \<Rightarrow> NaN
      | MV q \<Rightarrow> MV (- q)
      | PlusInfinity \<Rightarrow> MinusInfinity
      | MinusInfinity \<Rightarrow> PlusInfinity)"

definition nonDecimalLiteral :: "nat \<Rightarrow> string \<Rightarrow> string \<Rightarrow> numeric" where
  "nonDecimalLiteral base alphabet ds =
     (if ds \<noteq> [] \<and> list_all (\<lambda>c. c \<in> set alphabet) ds
      then MV (of_nat (natOfDigits base ds)) else NaN)"

definition stringToNumber :: "string \<Rightarrow> numeric" where
  "stringToNumber str =
     (let s = trimString str in
      case s of
        [] \<Rightarrow> MV 0
      | c # r \<Rightarrow>
          if c = CHR ''0'' \<and> r \<noteq> [] \<and> hd r \<in> set ''xX''
            then nonDecimalLiteral 16 ''0123456789abcdefABCDEF'' (tl r)
          else if c = CHR ''0'' \<and> r \<noteq> [] \<and> hd r \<in> set ''oO''
            then nonDecimalLiteral 8 ''01234567'' (tl r)
          else if c = CHR ''0'' \<and> r \<noteq> [] \<and> hd r \<in> set ''bB''
            then nonDecimalLiteral 2 ''01'' (tl r)
          else if c = CHR ''+'' then strUnsignedDecimalLiteral r
          else if c = CHR ''-'' then negate (strUnsignedDecimalLiteral r)
          else strUnsignedDecimalLiteral s)"

text \<open>\<^verbatim>\<open>ToNumber\<close> on the scalars.\<close>

fun toNumber :: "scalar \<Rightarrow> numeric" where
  "toNumber JUndefined = NaN"
| "toNumber JNull = MV 0"
| "toNumber (JBool b) = MV (if b then 1 else 0)"
| "toNumber (JNum n) = MV (of_int n)"
| "toNumber (JStr s) = stringToNumber s"

text \<open>
  \<^verbatim>\<open>value > 0\<close>. A comparison with NaN is false. A positive literal rounds to
  a double above zero exactly when it exceeds half of the least positive double,
  \<open>2^-1075\<close>.
\<close>

definition greaterThanZero :: "scalar \<Rightarrow> bool" where
  "greaterThanZero v =
     (case toNumber v of
        NaN \<Rightarrow> False
      | MV q \<Rightarrow> 1 / 2 ^ 1075 < q
      | PlusInfinity \<Rightarrow> True
      | MinusInfinity \<Rightarrow> False)"

text \<open>\<^verbatim>\<open>!value\<close> is the negation of the value's truthiness.\<close>

fun truthy :: "scalar \<Rightarrow> bool" where
  "truthy JUndefined = False"
| "truthy JNull = False"
| "truthy (JBool b) = b"
| "truthy (JNum n) = (n \<noteq> 0)"
| "truthy (JStr s) = (s \<noteq> [])"

section \<open>The validators of express-validator\<close>

text \<open>
  A standard validator sees the field's value as a string (the library's
  \<^verbatim>\<open>toString\<close>: \<^verbatim>\<open>null\<close> and \<^verbatim>\<open>undefined\<close> become the empty string) and
  applies a predicate of validator.js to it.
\<close>

fun toString :: "scalar \<Rightarrow> string" where
  "toString JUndefined = []"
| "toString JNull = []"
| "toString (JBool b) = (if b then ''true'' else ''false'')"
| "toString (JNum n) = numberToString n"
| "toString (JStr s) = s"

definition stripSign :: "string \<Rightarrow> string" where
  "stripSign s =
     (case s of [] \<Rightarrow> [] | c # r \<Rightarrow> if c = CHR ''+'' \<or> c = CHR ''-'' then r else s)"

text \<open>\<^verbatim>\<open>/^[-+]?[0-9]+$/\<close>\<close>

definition isInt :: "string \<Rightarrow> bool" where
  "isInt s = digits1 (stripSign s)"

text \<open>\<^verbatim>\<open>/^[+-]?([0-9]*[.])?[0-9]+$/\<close>\<close>

definition isNumeric :: "string \<Rightarrow> bool" where
  "isNumeric s =
     (let t = stripSign s; d = takeWhile isDigit t; r = dropWhile isDigit t
      in (r = [] \<and> d \<noteq> []) \<or> (r \<noteq> [] \<and> hd r = CHR ''.'' \<and> digits1 (tl r)))"

definition isEmpty :: "string \<Rightarrow> bool" where
  "isEmpty s = (length s = 0)"

definition isBoolean :: "string \<Rightarrow> bool" where
  "isBoolean s = (s \<in> set [''true'', ''false'', ''1'', ''0''])"

datatype location = InBody | InParams

text \<open>One link of a validation chain: the check and the message given by \<^verbatim>\<open>withMessage\<close>.\<close>

record rule =
  passes :: "scalar \<Rightarrow> bool"
  message :: string

record chain =
  location :: location
  path :: string
  rules :: "rule list"

text \<open>An entry of \<^verbatim>\<open>validationResult(req).array()\<close>.\<close>

record violation =
  v_location :: location
  v_path :: string
  v_value :: scalar
  msg :: string

definition withMessage :: "(scalar \<Rightarrow> bool) \<Rightarrow> string \<Rightarrow> rule" where
  "withMessage check m = \<lparr>passes = check, message = m\<rparr>"

definition isIntV :: "scalar \<Rightarrow> bool" where
  "isIntV v = isInt (toString v)"

definition isNumericV :: "scalar \<Rightarrow> bool" where
  "isNumericV v = isNumeric (toString v)"

definition notEmpty :: "scalar \<Rightarrow> bool" where
  "notEmpty v = (\<not> isEmpty (toString v))"

definition isBooleanV :: "scalar \<Rightarrow> bool" where
  "isBooleanV v = isBoolean (toString v)"

text \<open>\<^verbatim>\<open>custom(f)\<close> hands the raw value to \<open>f\<close> and fails when the result is falsy.\<close>

definition custom :: "(scalar \<Rightarrow> bool) \<Rightarrow> scalar \<Rightarrow> bool" where
  "custom f v = f v"

definition param :: "string \<Rightarrow> rule list \<Rightarrow> chain" where
  "param p rs = \<lparr>location = InParams, path = p, rules = rs\<rparr>"

definition body_field :: "string \<Rightarrow> rule list \<Rightarrow> chain" where
  "body_field p rs = \<lparr>location = InBody, path = p, rules = rs\<rparr>"

definition select :: "request \<Rightarrow> chain \<Rightarrow> scalar" where
  "select req c =
     (case location c of
        InBody \<Rightarrow> field (body req) (path c)
      | InParams \<Rightarrow> if path c = ''id'' then JStr (params_id req) else JUndefined)"

text \<open>Running a chain: every rule is tried, in order, and each failure is recorded.\<close>

definition run_chain :: "request \<Rightarrow> chain \<Rightarrow> violation list" where
  "run_chain req c =
     map (\<lambda>r. \<lparr>v_location = location c, v_path = path c, v_value = select req c,
                msg = message r\<rparr>)
         (filter (\<lambda>r. \<not> passes r (select req c)) (rules c))"

definition validationResult :: "chain list \<Rightarrow> request \<Rightarrow> violation list" where
  "validationResult cs req = concat (map (run_chain req) cs)"

section \<open>The product and what a handler answers\<close>

text \<open>
  The attributes of a product instance, as the API documentation in
  \<^verbatim>\<open>router.ts\<close> lists them (\<^verbatim>\<open>id\<close>, \<^verbatim>\<open>name\<close>, \<^verbatim>\<open>price\<close>,
  \<^verbatim>\<open>availability\<close>), with the two timestamps that \<^verbatim>\<open>getProducts\<close> excludes
  by name. A timestamp is \<open>None\<close> when the instance was loaded without that
  attribute. Column values are kept as the scalars they were given as.
\<close>

record product =
  product_id :: int
  name :: scalar
  price :: scalar
  availability :: scalar
  createdAt :: "nat option"
  updatedAt :: "nat option"

text \<open>
  The JSON bodies the program sends: \<^verbatim>\<open>{data: products}\<close>, \<^verbatim>\<open>{data: product}\<close>,
  \<^verbatim>\<open>{data: text}\<close>, \<^verbatim>\<open>{error: text}\<close> and \<^verbatim>\<open>{errors: [...]}\<close>.
\<close>

datatype payload =
  Data_products "product list"
| Data_product product
| Data_text string
| Error_text string
| Errors "violation list"

record response =
  status :: nat
  json :: payload

text \<open>
  What running a handler leaves behind: the response, the errors it wrote to
  the console, the rejections of promises nobody awaited, and the state of the
  persistence client.
\<close>

record ('e, 'db) outcome =
  response :: response
  logged :: "'e list"
  unhandled :: "'e list"
  db :: "'db"

definition respond :: "nat \<Rightarrow> payload \<Rightarrow> 'db \<Rightarrow> ('e, 'db) outcome" where
  "respond code p d =
     \<lparr>response = \<lparr>status = code, json = p\<rparr>, logged = [], unhandled = [], db = d\<rparr>"

section \<open>The persistence client\<close>

text \<open>
  The handlers call the model class \<^verbatim>\<open>Product\<close> and its instances. The client
  is a parameter of every handler: each call takes the client's state and gives
  back either the thrown error (\<open>Inl\<close>) or the result, with the new state.
  \<^verbatim>\<open>update\<close> assigns the given fields to the instance at once and then writes
  them; its result carries the instance as assigned and the rejection, if any,
  of the write.
\<close>

datatype direction = ASC | DESC

record ('e, 'db) persistence =
  findAll :: "(string \<times> direction) list \<Rightarrow> string list \<Rightarrow> 'db \<Rightarrow> ('e + product list) \<times> 'db"
  findByPk :: "string \<Rightarrow> 'db \<Rightarrow> ('e + product option) \<times> 'db"
  create :: "json_object \<Rightarrow> 'db \<Rightarrow> ('e + product) \<times> 'db"
  update :: "product \<Rightarrow> json_object \<Rightarrow> 'db \<Rightarrow> ('e option \<times> product) \<times> 'db"
  save :: "product \<Rightarrow> 'db \<Rightarrow> ('e + product) \<times> 'db"
  destroy :: "product \<Rightarrow> 'db \<Rightarrow> ('e + unit) \<times> 'db"

section \<open>The handlers (handlers/product.ts)\<close>

text \<open>The \<^verbatim>\<open>catch\<close> block every handler ends with.\<close>

definition database_error :: "'e \<Rightarrow> 'db \<Rightarrow> ('e, 'db) outcome" where
  "database_error e d =
     \<lparr>response = \<lparr>status = 500, json = Error_text ''Database error''\<rparr>,
      logged = [e], unhandled = [], db = d\<rparr>"

definition not_found :: "'db \<Rightarrow> ('e, 'db) outcome" where
  "not_found d = respond 404 (Error_text ''Producto no encontrado'') d"

definition getProducts :: "('e, 'db) persistence \<Rightarrow> request \<Rightarrow> 'db \<Rightarrow> ('e, 'db) outcome" where
  "getProducts P req d =
     (case findAll P [(''id'', DESC)] [''createdAt'', ''updatedAt''] d of
        (Inl e, d1) \<Rightarrow> database_error e d1
      | (Inr products, d1) \<Rightarrow> respond 200 (Data_products products) d1)"

definition getProductsById :: "('e, 'db) persistence \<Rightarrow> request \<Rightarrow> 'db \<Rightarrow> ('e, 'db) outcome" where
  "getProductsById P req d =
     (case findByPk P (params_id req) d of
        (Inl e, d1) \<Rightarrow> database_error e d1
      | (Inr None, d1) \<Rightarrow> not_found d1
      | (Inr (Some p), d1) \<Rightarrow> respond 200 (Data_product p) d1)"

definition createProduct :: "('e, 'db) persistence \<Rightarrow> request \<Rightarrow> 'db \<Rightarrow> ('e, 'db) outcome" where
  "createProduct P req d =
     (case create P (body req) d of
        (Inl e, d1) \<Rightarrow> database_error e d1
      | (Inr p, d1) \<Rightarrow> respond 201 (Data_product p) d1)"

text \<open>
  \<^verbatim>\<open>product.update(req.body)\<close> is called without \<^verbatim>\<open>await\<close>: the handler goes
  on to \<^verbatim>\<open>await product.save()\<close> whatever becomes of the promise, and a
  rejection of it reaches no \<^verbatim>\<open>catch\<close>. The write started by \<^verbatim>\<open>update\<close> is
  taken to reach the database before the one of \<^verbatim>\<open>save\<close>.
\<close>

definition updateProduct :: "('e, 'db) persistence \<Rightarrow> request \<Rightarrow> 'db \<Rightarrow> ('e, 'db) outcome" where
  "updateProduct P req d =
     (case findByPk P (params_id req) d of
        (Inl e, d1) \<Rightarrow> database_error e d1
      | (Inr None, d1) \<Rightarrow> not_found d1
      | (Inr (Some p), d1) \<Rightarrow>
          (case update P p (body req) d1 of
             ((rejection, p1), d2) \<Rightarrow>
               (case save P p1 d2 of
                  (Inl e, d3) \<Rightarrow> (database_error e d3)\<lparr>unhandled := case_option [] (\<lambda>x. [x]) rejection\<rparr>
                | (Inr p2, d3) \<Rightarrow>
                    (respond 200 (Data_product p2) d3)\<lparr>unhandled := case_option [] (\<lambda>x. [x]) rejection\<rparr>)))"

definition updateAvailability :: "('e, 'db) persistence \<Rightarrow> request \<Rightarrow> 'db \<Rightarrow> ('e, 'db) outcome" where
  "updateAvailability P req d =
     (case findByPk P (params_id req) d of
        (Inl e, d1) \<Rightarrow> database_error e d1
      | (Inr None, d1) \<Rightarrow> not_found d1
      | (Inr (Some p), d1) \<Rightarrow>
          (case save P (p\<lparr>availability := JBool (\<not> truthy (availability p))\<rparr>) d1 of
             (Inl e, d2) \<Rightarrow> database_error e d2
           | (Inr p1, d2) \<Rightarrow> respond 200 (Data_product p1) d2))"

definition deleteProduct :: "('e, 'db) persistence \<Rightarrow> request \<Rightarrow> 'db \<Rightarrow> ('e, 'db) outcome" where
  "deleteProduct P req d =
     (case findByPk P (params_id req) d of
        (Inl e, d1) \<Rightarrow> database_error e d1
      | (Inr None, d1) \<Rightarrow> not_found d1
      | (Inr (Some p), d1) \<Rightarrow>
          (case destroy P p d1 of
             (Inl e, d2) \<Rightarrow> database_error e d2
           | (Inr u, d2) \<Rightarrow> respond 200 (Data_text ''Producto eliminado'') d2))"

section \<open>The routes (router.ts)\<close>

text \<open>The messages; \<open>CHR 0xE1\<close> is a with acute accent, \<open>CHR 0xED\<close> is i with acute accent.\<close>

definition msg_id :: string where
  "msg_id = ''ID no v'' @ [CHR 0xE1] @ ''lido''"

definition msg_name :: string where
  "msg_name = ''El nombre del producto no puede estar vac'' @ [CHR 0xED] @ ''o''"

definition msg_numeric :: string where
  "msg_numeric = ''Valor no v'' @ [CHR 0xE1] @ ''lido''"

definition msg_price_empty :: string where
  "msg_price_empty = ''El precio del producto no puede estar vac'' @ [CHR 0xED] @ ''o''"

definition msg_price :: string where
  "msg_price = ''El precio no es v'' @ [CHR 0xE1] @ ''lido''"

definition msg_availability :: string where
  "msg_availability = ''Valor para la disponibilidad no v'' @ [CHR 0xE1] @ ''lida ''"

definition id_chain :: chain where
  "id_chain = param ''id'' [withMessage isIntV msg_id]"

definition name_chain :: chain where
  "name_chain = body_field ''name'' [withMessage notEmpty msg_name]"

definition price_chain :: chain where
  "price_chain =
     body_field ''price''
       [withMessage isNumericV msg_numeric,
        withMessage notEmpty msg_price_empty,
        withMessage (custom greaterThanZero) msg_price]"

definition availability_chain :: chain where
  "availability_chain = body_field ''availability'' [withMessage isBooleanV msg_availability]"

definition get_chains :: "chain list" where
  "get_chains = [id_chain]"

definition post_chains :: "chain list" where
  "post_chains = [name_chain, price_chain]"

definition put_chains :: "chain list" where
  "put_chains = [id_chain, name_chain, price_chain, availability_chain]"

definition patch_chains :: "chain list" where
  "patch_chains = [id_chain]"

definition delete_chains :: "chain list" where
  "delete_chains = [id_chain]"

text \<open>
  Modelled from the spec: \<^verbatim>\<open>handleInputErrors\<close> of \<^verbatim>\<open>middleware\<close>, which
  \<^verbatim>\<open>router.ts\<close> imports and places between the chains and the handler of every
  validated route. Section 4.1 of the specification: if the violation sequence
  is non-empty, respond with HTTP 400 and the body \<^verbatim>\<open>{errors: [...]}\<close> and do
  not invoke the resource handler; if empty, pass control to the resource
  handler.
\<close>

definition handleInputErrors ::
  "violation list \<Rightarrow> 'db \<Rightarrow> ('db \<Rightarrow> ('e, 'db) outcome) \<Rightarrow> ('e, 'db) outcome" where
  "handleInputErrors errors d next_handler =
     (if errors \<noteq> [] then respond 400 (Errors errors) d else next_handler d)"

text \<open>A validated route: the chains run, then \<^verbatim>\<open>handleInputErrors\<close>, then the handler.\<close>

definition validated ::
  "chain list \<Rightarrow> (request \<Rightarrow> 'db \<Rightarrow> ('e, 'db) outcome) \<Rightarrow> request \<Rightarrow> 'db \<Rightarrow> ('e, 'db) outcome" where
  "validated cs handler req d = handleInputErrors (validationResult cs req) d (handler req)"

definition route_get_all :: "('e, 'db) persistence \<Rightarrow> request \<Rightarrow> 'db \<Rightarrow> ('e, 'db) outcome" where
  "route_get_all P = getProducts P"

definition route_get :: "('e, 'db) persistence \<Rightarrow> request \<Rightarrow> 'db \<Rightarrow> ('e, 'db) outcome" where
  "route_get P = validated get_chains (getProductsById P)"

definition route_post :: "('e, 'db) persistence \<Rightarrow> request \<Rightarrow> 'db \<Rightarrow> ('e, 'db) outcome" where
  "route_post P = validated post_chains (createProduct P)"

definition route_put :: "('e, 'db) persistence \<Rightarrow> request \<Rightarrow> 'db \<Rightarrow> ('e, 'db) outcome" where
  "route_put P = validated put_chains (updateProduct P)"

definition route_patch :: "('e, 'db) persistence \<Rightarrow> request \<Rightarrow> 'db \<Rightarrow> ('e, 'db) outcome" where
  "route_patch P = validated patch_chains (updateAvailability P)"

definition route_delete :: "('e, 'db) persistence \<Rightarrow> request \<Rightarrow> 'db \<Rightarrow> ('e, 'db) outcome" where
  "route_delete P = validated delete_chains (deleteProduct P)"

section \<open>A reference persistence client\<close>

text \<open>
  The model class \<^verbatim>\<open>Product\<close> (\<^verbatim>\<open>models/Product.model\<close>) and the database behind
  it are not part of the handlers. Where a statement is about what is stored,
  the handlers run against the in-memory client below. Like the mocks of the
  test suite (\<^verbatim>\<open>mockRejectedValueOnce\<close>), it can be told to reject the next call
  of an operation.
\<close>

datatype operation = FindAll | FindByPk | Create | Update | Save | Destroy

datatype db_error = Rejected operation | InvalidInteger string

record memory =
  table :: "product list"
  next_id :: int
  clock :: nat
  rejectOnce :: "operation list"

definition guarded ::
  "operation \<Rightarrow> memory \<Rightarrow> (memory \<Rightarrow> (db_error + 'a) \<times> memory) \<Rightarrow> (db_error + 'a) \<times> memory" where
  "guarded op d run =
     (if op \<in> set (rejectOnce d)
      then (Inl (Rejected op), d\<lparr>rejectOnce := remove1 op (rejectOnce d)\<rparr>)
      else run d)"

text \<open>The integer a database reads from the text of an id: an optional sign and decimal digits.\<close>

definition integerOfString :: "string \<Rightarrow> int option" where
  "integerOfString s =
     (if digits1 (stripSign s)
      then Some (if s \<noteq> [] \<and> hd s = CHR ''-''
                 then - int (natOfDigits 10 (stripSign s))
                 else int (natOfDigits 10 (stripSign s)))
      else None)"

definition order_rows :: "(string \<times> direction) list \<Rightarrow> product list \<Rightarrow> product list" where
  "order_rows order rs =
     (if order = [(''id'', DESC)] then rev (sort_key product_id rs)
      else if order = [(''id'', ASC)] then sort_key product_id rs
      else rs)"

definition exclude_attributes :: "string list \<Rightarrow> product \<Rightarrow> product" where
  "exclude_attributes ex p =
     p\<lparr>createdAt := (if ''createdAt'' \<in> set ex then None else createdAt p),
       updatedAt := (if ''updatedAt'' \<in> set ex then None else updatedAt p)\<rparr>"

text \<open>
  Modelled from the spec: \<^verbatim>\<open>findAll(order, attributeFilter)\<close> of the persistence
  client (sections 2 and 6: \<^verbatim>\<open>list(orderSpec, fieldExclusions) -> Product[]\<close>).
  Rows can be ordered by \<^verbatim>\<open>id\<close>; the attributes that can be excluded are the
  two timestamps.
\<close>

definition mem_findAll ::
  "(string \<times> direction) list \<Rightarrow> string list \<Rightarrow> memory \<Rightarrow> (db_error + product list) \<times> memory" where
  "mem_findAll order ex d =
     guarded FindAll d (\<lambda>d. (Inr (map (exclude_attributes ex) (order_rows order (table d))), d))"

text \<open>
  Modelled from the spec: \<^verbatim>\<open>findByPk(id)\<close> of the persistence client (section 6:
  \<^verbatim>\<open>getById(id) -> Product | null\<close>). The id arrives as the text of the path
  parameter; text that is no integer is an error of the database.
\<close>

definition mem_findByPk :: "string \<Rightarrow> memory \<Rightarrow> (db_error + product option) \<times> memory" where
  "mem_findByPk i d =
     guarded FindByPk d (\<lambda>d.
       case integerOfString i of
         None \<Rightarrow> (Inl (InvalidInteger i), d)
       | Some k \<Rightarrow> (Inr (find (\<lambda>r. product_id r = k) (table d)), d))"

text \<open>
  Modelled from the spec: \<^verbatim>\<open>create(fields)\<close> of the persistence client (section 6:
  \<^verbatim>\<open>insert(fields) -> Product\<close>; section 3: the id is assigned by the persistence
  layer, \<^verbatim>\<open>availability\<close> defaults to \<^verbatim>\<open>true\<close> at creation, timestamps are
  kept in storage).
\<close>

definition mem_create :: "json_object \<Rightarrow> memory \<Rightarrow> (db_error + product) \<times> memory" where
  "mem_create vals d =
     guarded Create d (\<lambda>d.
       let p = \<lparr>product_id = next_id d,
                name = field vals ''name'',
                price = field vals ''price'',
                availability =
                  (if field vals ''availability'' = JUndefined then JBool True
                   else field vals ''availability''),
                createdAt = Some (clock d),
                updatedAt = Some (clock d)\<rparr>
       in (Inr p, d\<lparr>table := table d @ [p], next_id := next_id d + 1, clock := Suc (clock d)\<rparr>))"

text \<open>The assignment half of \<^verbatim>\<open>update(fields)\<close>: a field that is not given keeps its value.\<close>

definition assign_fields :: "product \<Rightarrow> json_object \<Rightarrow> product" where
  "assign_fields p vals =
     p\<lparr>name := (if field vals ''name'' = JUndefined then name p else field vals ''name''),
       price := (if field vals ''price'' = JUndefined then price p else field vals ''price''),
       availability :=
         (if field vals ''availability'' = JUndefined then availability p
          else field vals ''availability'')\<rparr>"

text \<open>Writing an instance over the row with its id; the row keeps its creation time.\<close>

definition write_row :: "product \<Rightarrow> product \<Rightarrow> product" where
  "write_row p r =
     (if product_id r = product_id p
      then r\<lparr>name := name p, price := price p, availability := availability p,
             updatedAt := updatedAt p\<rparr>
      else r)"

definition persist :: "product \<Rightarrow> memory \<Rightarrow> product \<times> memory" where
  "persist p d =
     (let p1 = p\<lparr>updatedAt := Some (clock d)\<rparr>
      in (p1, d\<lparr>table := map (write_row p1) (table d), clock := Suc (clock d)\<rparr>))"

text \<open>
  Modelled from the spec: \<^verbatim>\<open>save()\<close> of an instance (section 6:
  \<^verbatim>\<open>instance.persist()\<close>).
\<close>

definition mem_save :: "product \<Rightarrow> memory \<Rightarrow> (db_error + product) \<times> memory" where
  "mem_save p d = guarded Save d (\<lambda>d. case persist p d of (p1, d1) \<Rightarrow> (Inr p1, d1))"

text \<open>
  Modelled from the spec: \<^verbatim>\<open>update(fields)\<close> of an instance (section 6:
  \<^verbatim>\<open>instance.replaceFields(fields)\<close>; section 4.2: the fields are overwritten, the
  id is preserved). The fields are assigned to the instance even when the write
  is rejected.
\<close>

definition mem_update ::
  "product \<Rightarrow> json_object \<Rightarrow> memory \<Rightarrow> (db_error option \<times> product) \<times> memory" where
  "mem_update p vals d =
     (if Update \<in> set (rejectOnce d)
      then ((Some (Rejected Update), assign_fields p vals),
            d\<lparr>rejectOnce := remove1 Update (rejectOnce d)\<rparr>)
      else (case persist (assign_fields p vals) d of (p1, d1) \<Rightarrow> ((None, p1), d1)))"

text \<open>
  Modelled from the spec: \<^verbatim>\<open>destroy()\<close> of an instance (section 6:
  \<^verbatim>\<open>instance.remove()\<close>; section 4.2: Present becomes Absent).
\<close>

definition mem_destroy :: "product \<Rightarrow> memory \<Rightarrow> (db_error + unit) \<times> memory" where
  "mem_destroy p d =
     guarded Destroy d (\<lambda>d.
       (Inr (), d\<lparr>table := filter (\<lambda>r. product_id r \<noteq> product_id p) (table d)\<rparr>))"

definition Product :: "(db_error, memory) persistence" where
  "Product =
     \<lparr>findAll = mem_findAll, findByPk = mem_findByPk, create = mem_create,
      update = mem_update, save = mem_save, destroy = mem_destroy\<rparr>"

text \<open>
  A client that only records what \<^verbatim>\<open>create\<close> is called with, as a spy of the
  test suite would. Its state is the list of the arguments received so far.
\<close>

definition spy :: "(unit, json_object list) persistence" where
  "spy =
     \<lparr>findAll = (\<lambda>order ex d. (Inr [], d)),
      findByPk = (\<lambda>i d. (Inr None, d)),
      create = (\<lambda>vals d.
        (Inr \<lparr>product_id = 0, name = field vals ''name'', price = field vals ''price'',
               availability = field vals ''availability'', createdAt = None,
               updatedAt = None\<rparr>,
         d @ [vals])),
      update = (\<lambda>p vals d. ((None, p), d)),
      save = (\<lambda>p d. (Inr p, d)),
      destroy = (\<lambda>p d. (Inr (), d))\<rparr>"

text \<open>The products of the table with a given id: Present means there is one.\<close>

definition present :: "int \<Rightarrow> memory \<Rightarrow> bool" where
  "present k d = (k \<in> product_id ` set (table d))"

section \<open>Sample data\<close>

text \<open>The product and the requests of the test suite.\<close>

definition monitor :: product where
  "monitor = \<lparr>product_id = 1, name = JStr ''Monitor Curvo'', price = JNum 300,
     availability = JBool True, createdAt = Some 0, updatedAt = Some 0\<rparr>"

definition one_product :: memory where
  "one_product = \<lparr>table = [monitor], next_id = 2, clock = 1, rejectOnce = []\<rparr>"

definition put_request :: request where
  "put_request = \<lparr>params_id = ''1'',
     body = [(''name'', JStr ''Error Product''), (''availability'', JBool True), (''price'', JNum 300)]\<rparr>"

definition mouse :: product where
  "mouse = \<lparr>product_id = 2, name = JStr ''Mouse - Testing'', price = JStr ''50'',
     availability = JBool True, createdAt = Some 1, updatedAt = Some 1\<rparr>"

definition two_products :: memory where
  "two_products = \<lparr>table = [monitor, mouse], next_id = 3, clock = 2, rejectOnce = []\<rparr>"

definition post_request :: request where
  "post_request =
     \<lparr>params_id = [], body = [(''name'', JStr ''Mouse - Testing''), (''price'', JStr ''50'')]\<rparr>"

definition empty_request :: "string \<Rightarrow> request" where
  "empty_request i = \<lparr>params_id = i, body = []\<rparr>"

definition price_zero :: "string \<Rightarrow> request" where
  "price_zero i =
     \<lparr>params_id = i,
      body = [(''name'', JStr ''Monitor Curvo''), (''availability'', JBool True),
              (''price'', JNum 0)]\<rparr>"

definition price_hola :: request where
  "price_hola =
     \<lparr>params_id = [], body = [(''name'', JStr ''Monitor Curvado''), (''price'', JStr ''Hola'')]\<rparr>"

section \<open>Timestamps in a response\<close>

text \<open>No product of the payload carries \<^verbatim>\<open>createdAt\<close> or \<^verbatim>\<open>updatedAt\<close>.\<close>

definition timestamps_excluded :: "payload \<Rightarrow> bool" where
  "timestamps_excluded pl =
     (case pl of
        Data_products ps \<Rightarrow> list_all (\<lambda>p. createdAt p = None \<and> updatedAt p = None) ps
      | Data_product p \<Rightarrow> createdAt p = None \<and> updatedAt p = None
      | Data_text t \<Rightarrow> True
      | Error_text t \<Rightarrow> True
      | Errors es \<Rightarrow> True)"

text \<open>Every stored row carries both timestamps.\<close>

definition stamped :: "memory \<Rightarrow> bool" where
  "stamped d = list_all (\<lambda>r. createdAt r \<noteq> None \<and> updatedAt r \<noteq> None) (table d)"

section \<open>The reference client, call by call\<close>

lemma integerOfString_1: "integerOfString ''1'' = Some 1"
  by (simp add: integerOfString_def digits1_def stripSign_def isDigit_def natOfDigits_def digitValue_def)

lemma isInt_integerOfString: "isInt s \<Longrightarrow> \<exists>k. integerOfString s = Some k"
  by (simp add: isInt_def integerOfString_def)

lemma findByPk_found:
  "FindByPk \<notin> set (rejectOnce d) \<Longrightarrow> integerOfString i = Some k \<Longrightarrow>
   findByPk Product i d = (Inr (find (\<lambda>r. product_id r = k) (table d)), d)"
  by (simp add: Product_def mem_findByPk_def guarded_def)

lemma save_written:
  "Save \<notin> set (rejectOnce d) \<Longrightarrow>
   save Product p d =
     (Inr (p\<lparr>updatedAt := Some (clock d)\<rparr>),
      d\<lparr>table := map (write_row (p\<lparr>updatedAt := Some (clock d)\<rparr>)) (table d),
        clock := Suc (clock d)\<rparr>)"
  by (simp add: Product_def mem_save_def guarded_def persist_def Let_def)

lemma destroy_removed:
  "Destroy \<notin> set (rejectOnce d) \<Longrightarrow>
   destroy Product p d =
     (Inr (), d\<lparr>table := filter (\<lambda>r. product_id r \<noteq> product_id p) (table d)\<rparr>)"
  by (simp add: Product_def mem_destroy_def guarded_def)

lemma find_product_id: "find (\<lambda>r. product_id r = k) rs = Some r \<Longrightarrow> product_id r = k"
  by (induction rs) (auto split: if_splits)

lemma find_write_row:
  "find (\<lambda>r. product_id r = k) rs = Some r \<Longrightarrow> product_id p = k \<Longrightarrow>
   find (\<lambda>r. product_id r = k) (map (write_row p) rs) = Some (write_row p r)"
  by (induction rs) (auto simp: write_row_def split: if_splits)

lemma filter_write_row:
  "filter (\<lambda>r. product_id r \<noteq> product_id p) (map (write_row p) rs) =
   filter (\<lambda>r. product_id r \<noteq> product_id p) rs"
  by (induction rs) (auto simp: write_row_def)

lemma find_None_present: "(find (\<lambda>r. product_id r = k) (table d) = None) = (\<not> present k d)"
  by (auto simp: present_def find_None_iff)

section \<open>The handlers, for any persistence client\<close>

text \<open>What each handler answers when its calls succeed, whatever the client is.\<close>

lemma getProducts_listed:
  "findAll P [(''id'', DESC)] [''createdAt'', ''updatedAt''] d = (Inr ps, d1) \<Longrightarrow>
   getProducts P req d = respond 200 (Data_products ps) d1"
  by (simp add: getProducts_def)

lemma getProductsById_found:
  "findByPk P (params_id req) d = (Inr (Some p), d1) \<Longrightarrow>
   getProductsById P req d = respond 200 (Data_product p) d1"
  by (simp add: getProductsById_def)

lemma getProductsById_absent:
  "findByPk P (params_id req) d = (Inr None, d1) \<Longrightarrow>
   getProductsById P req d = respond 404 (Error_text ''Producto no encontrado'') d1"
  by (simp add: getProductsById_def not_found_def)

lemma createProduct_created:
  "create P (body req) d = (Inr p, d1) \<Longrightarrow>
   createProduct P req d = respond 201 (Data_product p) d1"
  by (simp add: createProduct_def)

lemma updateProduct_absent:
  "findByPk P (params_id req) d = (Inr None, d1) \<Longrightarrow>
   updateProduct P req d = respond 404 (Error_text ''Producto no encontrado'') d1"
  by (simp add: updateProduct_def not_found_def)

lemma updateProduct_replaced:
  "findByPk P (params_id req) d = (Inr (Some p), d1) \<Longrightarrow>
   update P p (body req) d1 = ((None, p1), d2) \<Longrightarrow>
   save P p1 d2 = (Inr p2, d3) \<Longrightarrow>
   updateProduct P req d = respond 200 (Data_product p2) d3"
  by (simp add: updateProduct_def respond_def)

lemma updateAvailability_absent:
  "findByPk P (params_id req) d = (Inr None, d1) \<Longrightarrow>
   updateAvailability P req d = respond 404 (Error_text ''Producto no encontrado'') d1"
  by (simp add: updateAvailability_def not_found_def)

lemma updateAvailability_saved:
  "findByPk P (params_id req) d = (Inr (Some p), d1) \<Longrightarrow>
   save P (p\<lparr>availability := JBool (\<not> truthy (availability p))\<rparr>) d1 = (Inr p1, d2) \<Longrightarrow>
   updateAvailability P req d = respond 200 (Data_product p1) d2"
  by (simp add: updateAvailability_def)

lemma deleteProduct_absent:
  "findByPk P (params_id req) d = (Inr None, d1) \<Longrightarrow>
   deleteProduct P req d = respond 404 (Error_text ''Producto no encontrado'') d1"
  by (simp add: deleteProduct_def not_found_def)

lemma deleteProduct_destroyed:
  "findByPk P (params_id req) d = (Inr (Some p), d1) \<Longrightarrow>
   destroy P p d1 = (Inr u, d2) \<Longrightarrow>
   deleteProduct P req d = respond 200 (Data_text ''Producto eliminado'') d2"
  by (simp add: deleteProduct_def)

section \<open>Errors of the persistence client\<close>

text \<open>
  Every call a handler awaits sits in its \<^verbatim>\<open>try\<close> block: when the call throws,
  the handler logs the error, answers 500 with \<^verbatim>\<open>{error: "Database error"}\<close> and
  calls the client no more.
\<close>

lemma getProducts_caught:
  "findAll P [(''id'', DESC)] [''createdAt'', ''updatedAt''] d = (Inl e, d1) \<Longrightarrow>
   getProducts P req d = database_error e d1"
  by (simp add: getProducts_def)

lemma getProductsById_caught:
  "findByPk P (params_id req) d = (Inl e, d1) \<Longrightarrow> getProductsById P req d = database_error e d1"
  by (simp add: getProductsById_def)

lemma createProduct_caught:
  "create P (body req) d = (Inl e, d1) \<Longrightarrow> createProduct P req d = database_error e d1"
  by (simp add: createProduct_def)

lemma updateProduct_find_caught:
  "findByPk P (params_id req) d = (Inl e, d1) \<Longrightarrow> updateProduct P req d = database_error e d1"
  by (simp add: updateProduct_def)

lemma updateProduct_save_caught:
  "findByPk P (params_id req) d = (Inr (Some p), d1) \<Longrightarrow>
   update P p (body req) d1 = ((None, p1), d2) \<Longrightarrow>
   save P p1 d2 = (Inl e, d3) \<Longrightarrow>
   updateProduct P req d = database_error e d3"
  by (simp add: updateProduct_def database_error_def)

lemma updateAvailability_find_caught:
  "findByPk P (params_id req) d = (Inl e, d1) \<Longrightarrow> updateAvailability P req d = database_error e d1"
  by (simp add: updateAvailability_def)

lemma updateAvailability_save_caught:
  "findByPk P (params_id req) d = (Inr (Some p), d1) \<Longrightarrow>
   save P (p\<lparr>availability := JBool (\<not> truthy (availability p))\<rparr>) d1 = (Inl e, d2) \<Longrightarrow>
   updateAvailability P req d = database_error e d2"
  by (simp add: updateAvailability_def)

lemma deleteProduct_find_caught:
  "findByPk P (params_id req) d = (Inl e, d1) \<Longrightarrow> deleteProduct P req d = database_error e d1"
  by (simp add: deleteProduct_def)

lemma deleteProduct_destroy_caught:
  "findByPk P (params_id req) d = (Inr (Some p), d1) \<Longrightarrow>
   destroy P p d1 = (Inl e, d2) \<Longrightarrow>
   deleteProduct P req d = database_error e d2"
  by (simp add: deleteProduct_def)

text \<open>
  The one call that is not awaited is \<^verbatim>\<open>product.update(req.body)\<close>: when it
  rejects and the following \<^verbatim>\<open>save\<close> succeeds, the handler answers 200 and the
  rejection is handled nowhere.
\<close>

lemma updateProduct_update_escapes:
  "findByPk P (params_id req) d = (Inr (Some p), d1) \<Longrightarrow>
   update P p (body req) d1 = ((Some e, p1), d2) \<Longrightarrow>
   save P p1 d2 = (Inr p2, d3) \<Longrightarrow>
   updateProduct P req d =
     \<lparr>response = \<lparr>status = 200, json = Data_product p2\<rparr>, logged = [], unhandled = [e], db = d3\<rparr>"
  by (simp add: updateProduct_def respond_def)

text \<open>
  C6 (any exception thrown by the persistence client is caught at the handler
  boundary and converted to a 500 response, for each of the six operations):
  the full update does otherwise. With the row of id 1 stored and the client
  rejecting the next \<^verbatim>\<open>update\<close>, \<^verbatim>\<open>PUT /1\<close> with a valid body answers 200; the
  error is neither logged nor turned into a response.
\<close>

theorem updateProduct_rejected_update_escapes:
  "updateProduct Product put_request
     \<lparr>table = [monitor], next_id = 2, clock = 1, rejectOnce = [Update]\<rparr> =
   \<lparr>response = \<lparr>status = 200,
        json = Data_product (monitor\<lparr>name := JStr ''Error Product'', updatedAt := Some 1\<rparr>)\<rparr>,
    logged = [], unhandled = [Rejected Update],
    db = \<lparr>table = [monitor\<lparr>name := JStr ''Error Product'', updatedAt := Some 1\<rparr>],
          next_id = 2, clock = 2, rejectOnce = []\<rparr>\<rparr>"
  by (simp add: updateProduct_def Product_def mem_findByPk_def mem_update_def mem_save_def
      guarded_def put_request_def integerOfString_1 monitor_def assign_fields_def field_def
      persist_def write_row_def respond_def Let_def numeral_2_eq_2)

section \<open>The availability toggle\<close>

text \<open>
  C4 (availability toggle with a valid integer id): when findByPk and save do
  not fail, a Present product gets the answer 200 with the product whose
  availability is the negation of the stored one, that product is the stored row
  afterwards (name and price as before), and rows of other ids are untouched;
  an Absent product gets the answer 404 and nothing changes.
\<close>

theorem updateAvailability_flips:
  assumes "isInt (params_id req)"
    and "FindByPk \<notin> set (rejectOnce d)"
    and "Save \<notin> set (rejectOnce d)"
  shows "\<exists>k. integerOfString (params_id req) = Some k \<and>
     (case find (\<lambda>r. product_id r = k) (table d) of
        None \<Rightarrow>
          updateAvailability Product req d =
            respond 404 (Error_text ''Producto no encontrado'') d
      | Some r \<Rightarrow>
          response (updateAvailability Product req d) =
            \<lparr>status = 200,
             json = Data_product
               (r\<lparr>availability := JBool (\<not> truthy (availability r)),
                  updatedAt := Some (clock d)\<rparr>)\<rparr> \<and>
          find (\<lambda>r. product_id r = k) (table (db (updateAvailability Product req d))) =
            Some (r\<lparr>availability := JBool (\<not> truthy (availability r)),
                    updatedAt := Some (clock d)\<rparr>) \<and>
          filter (\<lambda>r. product_id r \<noteq> k) (table (db (updateAvailability Product req d))) =
            filter (\<lambda>r. product_id r \<noteq> k) (table d))"
proof -
  from assms(1) obtain k where k: "integerOfString (params_id req) = Some k"
    using isInt_integerOfString by blast
  have look: "findByPk Product (params_id req) d =
      (Inr (find (\<lambda>r. product_id r = k) (table d)), d)"
    using assms(2) k by (rule findByPk_found)
  show ?thesis
  proof (cases "find (\<lambda>r. product_id r = k) (table d)")
    case None
    then show ?thesis
      using k look by (simp add: updateAvailability_def not_found_def)
  next
    case (Some r)
    define r1 where "r1 = r\<lparr>availability := JBool (\<not> truthy (availability r)),
                  updatedAt := Some (clock d)\<rparr>"
    have idr: "product_id r = k"
      using Some by (rule find_product_id)
    have w: "write_row r1 r = r1"
      by (simp add: write_row_def r1_def)
    have out: "updateAvailability Product req d =
        respond 200 (Data_product r1)
          (d\<lparr>table := map (write_row r1) (table d), clock := Suc (clock d)\<rparr>)"
      using look Some save_written [OF assms(3)]
      by (simp add: updateAvailability_def r1_def)
    have stored: "find (\<lambda>r. product_id r = k) (map (write_row r1) (table d)) = Some r1"
      using find_write_row [OF Some, of r1] idr w by (simp add: r1_def)
    have others: "filter (\<lambda>r. product_id r \<noteq> k) (map (write_row r1) (table d)) =
        filter (\<lambda>r. product_id r \<noteq> k) (table d)"
      using filter_write_row [of r1 "table d"] idr by (simp add: r1_def)
    show ?thesis
      using k Some out stored others by (simp add: respond_def r1_def)
  qed
qed

theorem updateAvailability_flips_witness:
  "response (updateAvailability Product \<lparr>params_id = ''1'', body = []\<rparr> one_product) =
     \<lparr>status = 200,
      json = Data_product (monitor\<lparr>availability := JBool False, updatedAt := Some 1\<rparr>)\<rparr> \<and>
   updateAvailability Product \<lparr>params_id = ''2'', body = []\<rparr> one_product =
     respond 404 (Error_text ''Producto no encontrado'') one_product"
proof -
  have i1: "isInt ''1''" and i2: "isInt ''2''"
    by (simp_all add: isInt_def digits1_def stripSign_def isDigit_def)
  have k2: "integerOfString ''2'' = Some 2"
    by (simp add: integerOfString_def digits1_def stripSign_def isDigit_def natOfDigits_def
        digitValue_def)
  show ?thesis
    using updateAvailability_flips [of "\<lparr>params_id = ''1'', body = []\<rparr>" one_product]
      updateAvailability_flips [of "\<lparr>params_id = ''2'', body = []\<rparr>" one_product]
      i1 i2 k2
    by (simp add: integerOfString_1 one_product_def monitor_def)
qed

text \<open>
  C9 (the toggle never reads the body): two requests with the same id, run
  against the same client in the same state, leave the same response, the same
  log and the same state, whatever their bodies are.
\<close>

theorem updateAvailability_ignores_body:
  "params_id r1 = params_id r2 \<Longrightarrow> updateAvailability P r1 d = updateAvailability P r2 d"
  by (simp add: updateAvailability_def)


theorem updateAvailability_ignores_body_witness:
  "updateAvailability Product \<lparr>params_id = ''1'', body = []\<rparr> one_product =
   updateAvailability Product
     \<lparr>params_id = ''1'', body = [(''availability'', JBool True), (''price'', JNum 0)]\<rparr>
     one_product"
  using updateAvailability_ignores_body
    [of "\<lparr>params_id = ''1'', body = []\<rparr>"
        "\<lparr>params_id = ''1'', body = [(''availability'', JBool True), (''price'', JNum 0)]\<rparr>"
        Product one_product]
  by simp

text \<open>The same holds of the whole route: the only chain of \<^verbatim>\<open>PATCH /:id\<close> reads the id.\<close>

lemma route_patch_ignores_body:
  "params_id r1 = params_id r2 \<Longrightarrow> route_patch P r1 d = route_patch P r2 d"
  by (simp add: route_patch_def validated_def handleInputErrors_def validationResult_def
      patch_chains_def run_chain_def id_chain_def param_def select_def updateAvailability_def)

section \<open>Delete\<close>

text \<open>
  C5 (delete with a valid integer id): when findByPk and destroy do not fail, a
  Present product gets the answer 200 with the text "Producto eliminado", no row
  of that id is left, the other rows stay, and a get of the same id on the new
  state answers 404; an Absent product gets the answer 404 with the error
  "Producto no encontrado" and nothing changes.
\<close>

theorem deleteProduct_removes:
  assumes "isInt (params_id req)"
    and "FindByPk \<notin> set (rejectOnce d)"
    and "Destroy \<notin> set (rejectOnce d)"
  shows "\<exists>k. integerOfString (params_id req) = Some k \<and>
     (if present k d
      then response (deleteProduct Product req d) =
             \<lparr>status = 200, json = Data_text ''Producto eliminado''\<rparr> \<and>
           \<not> present k (db (deleteProduct Product req d)) \<and>
           filter (\<lambda>r. product_id r \<noteq> k) (table (db (deleteProduct Product req d))) =
             filter (\<lambda>r. product_id r \<noteq> k) (table d) \<and>
           response (getProductsById Product req (db (deleteProduct Product req d))) =
             \<lparr>status = 404, json = Error_text ''Producto no encontrado''\<rparr>
      else deleteProduct Product req d =
             respond 404 (Error_text ''Producto no encontrado'') d)"
proof -
  from assms(1) obtain k where k: "integerOfString (params_id req) = Some k"
    using isInt_integerOfString by blast
  have look: "findByPk Product (params_id req) d =
      (Inr (find (\<lambda>r. product_id r = k) (table d)), d)"
    using assms(2) k by (rule findByPk_found)
  show ?thesis
  proof (cases "find (\<lambda>r. product_id r = k) (table d)")
    case None
    then have "\<not> present k d"
      by (simp add: find_None_present)
    then show ?thesis
      using k look None by (simp add: deleteProduct_def not_found_def)
  next
    case (Some r)
    define d1 where "d1 = d\<lparr>table := filter (\<lambda>x. product_id x \<noteq> k) (table d)\<rparr>"
    have idr: "product_id r = k"
      using Some by (rule find_product_id)
    have pres: "present k d"
      using Some find_None_present [of k d] by simp
    have out: "deleteProduct Product req d = respond 200 (Data_text ''Producto eliminado'') d1"
      using look Some destroy_removed [OF assms(3), of r] idr
      by (simp add: deleteProduct_def d1_def)
    have gone: "\<not> present k d1"
      by (auto simp: present_def d1_def)
    have ok1: "FindByPk \<notin> set (rejectOnce d1)"
      using assms(2) by (simp add: d1_def)
    have again: "getProductsById Product req d1 = not_found d1"
      using findByPk_found [OF ok1 k] gone find_None_present [of k d1]
      by (simp add: getProductsById_def)
    show ?thesis
      using k pres out gone again by (simp add: respond_def not_found_def d1_def)
  qed
qed

theorem deleteProduct_removes_witness:
  "response (deleteProduct Product \<lparr>params_id = ''1'', body = []\<rparr> one_product) =
     \<lparr>status = 200, json = Data_text ''Producto eliminado''\<rparr> \<and>
   \<not> present 1 (db (deleteProduct Product \<lparr>params_id = ''1'', body = []\<rparr> one_product)) \<and>
   response (getProductsById Product \<lparr>params_id = ''1'', body = []\<rparr>
      (db (deleteProduct Product \<lparr>params_id = ''1'', body = []\<rparr> one_product))) =
     \<lparr>status = 404, json = Error_text ''Producto no encontrado''\<rparr>"
proof -
  have i1: "isInt ''1''"
    by (simp add: isInt_def digits1_def stripSign_def isDigit_def)
  have p1: "present 1 one_product"
    by (simp add: present_def one_product_def monitor_def)
  show ?thesis
    using deleteProduct_removes [of "\<lparr>params_id = ''1'', body = []\<rparr>" one_product] i1 p1
    by (simp add: integerOfString_1 one_product_def)
qed

section \<open>Create\<close>

text \<open>
  In the reference client the row that \<^verbatim>\<open>create\<close> stores takes its three
  fields from the body; only an absent \<^verbatim>\<open>availability\<close> becomes \<^verbatim>\<open>true\<close>.
\<close>

lemma createProduct_stores_body:
  "Create \<notin> set (rejectOnce d) \<Longrightarrow>
   field (body req) ''availability'' \<noteq> JUndefined \<Longrightarrow>
   createProduct Product req d =
     respond 201
       (Data_product
         \<lparr>product_id = next_id d, name = field (body req) ''name'',
          price = field (body req) ''price'',
          availability = field (body req) ''availability'',
          createdAt = Some (clock d), updatedAt = Some (clock d)\<rparr>)
       (d\<lparr>table := table d @
            [\<lparr>product_id = next_id d, name = field (body req) ''name'',
              price = field (body req) ''price'',
              availability = field (body req) ''availability'',
              createdAt = Some (clock d), updatedAt = Some (clock d)\<rparr>],
          next_id := next_id d + 1, clock := Suc (clock d)\<rparr>)"
  by (simp add: createProduct_def Product_def mem_create_def guarded_def Let_def)

text \<open>
  C10 (create forwards the whole body): against a client that records the
  argument of each \<^verbatim>\<open>create\<close> call, the handler adds exactly one record, the
  request's body as it is, with every field the client sent.
\<close>

theorem createProduct_forwards_body:
  "db (createProduct spy req calls) = calls @ [body req]"
  by (simp add: createProduct_def spy_def respond_def)

theorem createProduct_forwards_body_witness:
  "db (createProduct spy
        \<lparr>params_id = [], body = [(''name'', JStr ''Mouse''), (''price'', JNum 50),
                                  (''availability'', JBool False)]\<rparr> []) =
   [[(''name'', JStr ''Mouse''), (''price'', JNum 50), (''availability'', JBool False)]]"
  using createProduct_forwards_body
    [of "\<lparr>params_id = [], body = [(''name'', JStr ''Mouse''), (''price'', JNum 50),
                                  (''availability'', JBool False)]\<rparr>" "[]"]
  by simp

section \<open>The list\<close>

lemma findAll_listed:
  "FindAll \<notin> set (rejectOnce d) \<Longrightarrow>
   findAll Product [(''id'', DESC)] [''createdAt'', ''updatedAt''] d =
     (Inr (map (\<lambda>r. r\<lparr>createdAt := None, updatedAt := None\<rparr>)
             (rev (sort_key product_id (table d)))), d)"
  by (simp add: Product_def mem_findAll_def guarded_def order_rows_def exclude_attributes_def)

lemma findAll_rejected:
  "FindAll \<in> set (rejectOnce d) \<Longrightarrow>
   findAll Product order ex d =
     (Inl (Rejected FindAll), d\<lparr>rejectOnce := remove1 FindAll (rejectOnce d)\<rparr>)"
  by (simp add: Product_def mem_findAll_def guarded_def)

text \<open>
  C7 (the list): when findAll does not fail, the answer is 200 with
  \<^verbatim>\<open>{data: [...]}\<close>; the rows are all the stored rows, each without its two
  timestamps, in descending order of id.
\<close>

theorem getProducts_newest_first:
  assumes "FindAll \<notin> set (rejectOnce d)"
  shows "\<exists>xs. getProducts Product req d = respond 200 (Data_products xs) d \<and>
     mset xs = image_mset (\<lambda>r. r\<lparr>createdAt := None, updatedAt := None\<rparr>) (mset (table d)) \<and>
     sorted_wrt (\<lambda>a b. product_id b \<le> product_id a) xs \<and>
     (\<forall>x \<in> set xs. createdAt x = None \<and> updatedAt x = None)"
proof -
  define strip where "strip = (\<lambda>r::product. r\<lparr>createdAt := None, updatedAt := None\<rparr>)"
  define xs where "xs = map strip (rev (sort_key product_id (table d)))"
  have out: "getProducts Product req d = respond 200 (Data_products xs) d"
    using findAll_listed [OF assms] by (simp add: getProducts_def xs_def strip_def)
  have all: "mset xs = image_mset strip (mset (table d))"
    by (simp add: xs_def)
  have ids: "map product_id xs = rev (map product_id (sort_key product_id (table d)))"
    by (simp add: xs_def strip_def rev_map comp_def)
  have "sorted (map product_id (sort_key product_id (table d)))"
    by (rule sorted_sort_key)
  then have "sorted_wrt (\<lambda>a b. b \<le> a) (map product_id xs)"
    by (simp add: ids sorted_wrt_rev)
  then have desc: "sorted_wrt (\<lambda>a b. product_id b \<le> product_id a) xs"
    by (simp add: sorted_wrt_map)
  have none: "\<forall>x \<in> set xs. createdAt x = None \<and> updatedAt x = None"
    by (auto simp: xs_def strip_def)
  show ?thesis
    using out all desc none unfolding strip_def by blast
qed

theorem getProducts_newest_first_witness:
  "FindAll \<notin> set (rejectOnce two_products) \<and>
   getProducts Product (empty_request []) two_products =
     respond 200
       (Data_products [mouse\<lparr>createdAt := None, updatedAt := None\<rparr>,
                       monitor\<lparr>createdAt := None, updatedAt := None\<rparr>])
       two_products"
  using getProducts_newest_first [of two_products "empty_request []"]
  by (simp add: getProducts_def findAll_listed two_products_def monitor_def mouse_def)

section \<open>Timestamps\<close>

lemma getProducts_excludes: "timestamps_excluded (json (response (getProducts Product req d)))"
proof (cases "FindAll \<in> set (rejectOnce d)")
  case True
  then show ?thesis
    by (simp add: getProducts_def findAll_rejected database_error_def timestamps_excluded_def)
next
  case False
  then show ?thesis
    by (simp add: getProducts_def findAll_listed respond_def timestamps_excluded_def
        list_all_iff)
qed

lemma find_in_table: "find Q rs = Some r \<Longrightarrow> r \<in> set rs"
  by (induction rs) (auto split: if_splits)

lemma findByPk_stamped:
  assumes "stamped d" and "findByPk Product i d = (Inr (Some p), d1)"
  shows "createdAt p \<noteq> None \<and> updatedAt p \<noteq> None"
proof -
  from assms(2) obtain k where "find (\<lambda>r. product_id r = k) (table d) = Some p"
    by (auto simp: Product_def mem_findByPk_def guarded_def split: if_splits option.splits)
  then have "p \<in> set (table d)"
    by (rule find_in_table)
  with assms(1) show ?thesis
    by (simp add: stamped_def list_all_iff)
qed

lemma save_stamps:
  "save Product p d = (Inr p1, d1) \<Longrightarrow> createdAt p1 = createdAt p \<and> updatedAt p1 \<noteq> None"
  by (auto simp: Product_def mem_save_def guarded_def persist_def Let_def split: if_splits)

lemma update_stamps:
  "update Product p vals d = ((rej, p1), d1) \<Longrightarrow> createdAt p1 = createdAt p"
  by (auto simp: Product_def mem_update_def persist_def Let_def assign_fields_def split: if_splits)

lemma create_stamps:
  "create Product vals d = (Inr p, d1) \<Longrightarrow> createdAt p \<noteq> None \<and> updatedAt p \<noteq> None"
  by (auto simp: Product_def mem_create_def guarded_def Let_def split: if_splits)

lemma getProductsById_stamped:
  assumes "stamped d" and "json (response (getProductsById Product req d)) = Data_product p"
  shows "createdAt p \<noteq> None \<and> updatedAt p \<noteq> None"
proof (cases "findByPk Product (params_id req) d")
  case (Pair a d1)
  then show ?thesis
    using assms(2) findByPk_stamped [OF assms(1), of "params_id req" p d1]
    by (auto simp: getProductsById_def database_error_def not_found_def respond_def
        split: sum.splits option.splits)
qed

lemma createProduct_stamped:
  assumes "json (response (createProduct Product req d)) = Data_product p"
  shows "createdAt p \<noteq> None \<and> updatedAt p \<noteq> None"
proof (cases "create Product (body req) d")
  case (Pair a d1)
  then show ?thesis
    using assms create_stamps [of "body req" d p d1]
    by (auto simp: createProduct_def database_error_def respond_def split: sum.splits)
qed

lemma updateAvailability_stamped:
  assumes "stamped d" and "json (response (updateAvailability Product req d)) = Data_product p"
  shows "createdAt p \<noteq> None \<and> updatedAt p \<noteq> None"
proof (cases "findByPk Product (params_id req) d")
  case (Pair a d1)
  show ?thesis
  proof (cases a)
    case (Inl e)
    then show ?thesis
      using Pair assms(2) by (simp add: updateAvailability_def database_error_def)
  next
    case (Inr found)
    show ?thesis
    proof (cases found)
      case None
      then show ?thesis
        using Pair Inr assms(2) by (simp add: updateAvailability_def not_found_def respond_def)
    next
      case (Some r)
      have r: "createdAt r \<noteq> None"
        using findByPk_stamped [OF assms(1), of "params_id req" r d1] Pair Inr Some by simp
      obtain b d2 where sv:
        "save Product (r\<lparr>availability := JBool (\<not> truthy (availability r))\<rparr>) d1 = (b, d2)"
        by (cases "save Product (r\<lparr>availability := JBool (\<not> truthy (availability r))\<rparr>) d1")
      show ?thesis
        using Pair Inr Some sv assms(2) r
          save_stamps [of "r\<lparr>availability := JBool (\<not> truthy (availability r))\<rparr>" d1 p d2]
        by (auto simp: updateAvailability_def database_error_def respond_def split: sum.splits)
    qed
  qed
qed

lemma updateProduct_stamped:
  assumes "stamped d" and "json (response (updateProduct Product req d)) = Data_product p"
  shows "createdAt p \<noteq> None \<and> updatedAt p \<noteq> None"
proof (cases "findByPk Product (params_id req) d")
  case (Pair a d1)
  show ?thesis
  proof (cases a)
    case (Inl e)
    then show ?thesis
      using Pair assms(2) by (simp add: updateProduct_def database_error_def)
  next
    case (Inr found)
    show ?thesis
    proof (cases found)
      case None
      then show ?thesis
        using Pair Inr assms(2) by (simp add: updateProduct_def not_found_def respond_def)
    next
      case (Some r)
      have r: "createdAt r \<noteq> None"
        using findByPk_stamped [OF assms(1), of "params_id req" r d1] Pair Inr Some by simp
      obtain rej p1 d2 where up: "update Product r (body req) d1 = ((rej, p1), d2)"
        by (metis surj_pair)
      obtain b d3 where sv: "save Product p1 d2 = (b, d3)"
        by (cases "save Product p1 d2")
      show ?thesis
        using Pair Inr Some up sv assms(2) r update_stamps [OF up] save_stamps [of p1 d2 p d3]
        by (auto simp: updateProduct_def database_error_def respond_def split: sum.splits)
    qed
  qed
qed

text \<open>
  C8 as stated (list, get by id, create, full update and toggle all leave the
  timestamps out of the response) fails: with one stored product, the answers
  of get by id, create, full update and toggle each carry a product with its
  timestamps.
\<close>

theorem timestamps_excluded_counterexample:
  "\<not> timestamps_excluded (json (response (getProductsById Product (empty_request ''1'') one_product))) \<and>
   \<not> timestamps_excluded (json (response (createProduct Product post_request one_product))) \<and>
   \<not> timestamps_excluded (json (response (updateProduct Product put_request one_product))) \<and>
   \<not> timestamps_excluded (json (response (updateAvailability Product (empty_request ''1'') one_product)))"
  by (simp add: timestamps_excluded_def getProductsById_def createProduct_def updateProduct_def
      updateAvailability_def Product_def mem_findByPk_def mem_create_def mem_update_def
      mem_save_def guarded_def persist_def Let_def respond_def empty_request_def
      post_request_def put_request_def one_product_def integerOfString_1 monitor_def
      assign_fields_def write_row_def field_def)

text \<open>
  C8, amended: the list leaves the timestamps out of every row it returns; get
  by id, create, full update and toggle answer with the product as the
  persistence client holds it, so a product they return carries the timestamps
  stored with its row.
\<close>

theorem timestamps_excluded_from_list_only:
  assumes "stamped d"
  shows "timestamps_excluded (json (response (getProducts Product req d))) \<and>
     (\<forall>p. json (response (getProductsById Product req d)) = Data_product p \<longrightarrow>
        createdAt p \<noteq> None \<and> updatedAt p \<noteq> None) \<and>
     (\<forall>p. json (response (createProduct Product req d)) = Data_product p \<longrightarrow>
        createdAt p \<noteq> None \<and> updatedAt p \<noteq> None) \<and>
     (\<forall>p. json (response (updateProduct Product req d)) = Data_product p \<longrightarrow>
        createdAt p \<noteq> None \<and> updatedAt p \<noteq> None) \<and>
     (\<forall>p. json (response (updateAvailability Product req d)) = Data_product p \<longrightarrow>
        createdAt p \<noteq> None \<and> updatedAt p \<noteq> None)"
  using assms getProducts_excludes getProductsById_stamped createProduct_stamped
    updateProduct_stamped updateAvailability_stamped
  by blast

theorem timestamps_excluded_from_list_only_witness:
  "stamped one_product \<and>
   timestamps_excluded (json (response (getProducts Product (empty_request ''1'') one_product))) \<and>
   json (response (getProductsById Product (empty_request ''1'') one_product)) =
     Data_product monitor \<and>
   createdAt monitor \<noteq> None \<and> updatedAt monitor \<noteq> None"
  using timestamps_excluded_from_list_only [of one_product "empty_request ''1''"]
  by (simp add: stamped_def getProductsById_def Product_def mem_findByPk_def guarded_def
      respond_def empty_request_def one_product_def integerOfString_1 monitor_def)

section \<open>Validation\<close>

lemma msg_run_chain:
  "map msg (run_chain req c) =
   map message (filter (\<lambda>r. \<not> passes r (select req c)) (rules c))"
  by (simp add: run_chain_def comp_def)

lemma msg_validationResult:
  "map msg (validationResult cs req) =
   concat (map (\<lambda>c. map message (filter (\<lambda>r. \<not> passes r (select req c)) (rules c))) cs)"
  by (simp add: validationResult_def map_concat comp_def msg_run_chain)

lemma run_chain_empty: "(run_chain req c = []) = (\<forall>r \<in> set (rules c). passes r (select req c))"
  by (simp add: run_chain_def filter_empty_conv)

lemma validationResult_empty:
  "(validationResult cs req = []) =
   (\<forall>c \<in> set cs. \<forall>r \<in> set (rules c). passes r (select req c))"
  by (simp add: validationResult_def run_chain_empty)

lemma greaterThanZero_50: "greaterThanZero (JStr ''50'')"
  by (simp add: greaterThanZero_def stringToNumber_def trimString_def isStrWhiteSpace_def
      strUnsignedDecimalLiteral_def isDigit_def exponentPart_def natOfDigits_def digitValue_def
      scale10_def)

lemma isNumeric_50: "isNumeric ''50''"
  by (simp add: isNumeric_def stripSign_def isDigit_def)

lemma isNumeric_0: "isNumeric ''0''"
  by (simp add: isNumeric_def stripSign_def isDigit_def)

lemma toString_0: "toString (JNum 0) = ''0''"
  by (simp add: numberToString_def decimalDigits.simps)

lemma not_positive_0: "\<not> greaterThanZero (JNum 0)"
  by (simp add: greaterThanZero_def)

lemma not_numeric_Hola: "\<not> isNumeric ''Hola''"
  by (simp add: isNumeric_def stripSign_def isDigit_def)

lemma not_positive_Hola: "\<not> greaterThanZero (JStr ''Hola'')"
  by (simp add: greaterThanZero_def stringToNumber_def trimString_def isStrWhiteSpace_def
      strUnsignedDecimalLiteral_def isDigit_def)

lemma not_positive_undefined: "\<not> greaterThanZero JUndefined"
  by (simp add: greaterThanZero_def)

lemma not_numeric_empty: "\<not> isNumeric []"
  by (simp add: isNumeric_def stripSign_def)

lemma not_boolean_empty: "\<not> isBoolean []"
  by (simp add: isBoolean_def)

lemma isBoolean_bool: "isBoolean (toString (JBool b))"
  by (simp add: isBoolean_def)

lemma select_body: "select req (body_field p rs) = field (body req) p"
  by (simp add: select_def body_field_def)

lemma select_id: "select req (param ''id'' rs) = JStr (params_id req)"
  by (simp add: select_def param_def)

lemma field_empty: "field [] k = JUndefined"
  by (simp add: field_def)

lemma msg_name_chain:
  "map msg (run_chain req name_chain) =
   (if toString (field (body req) ''name'') = [] then [msg_name] else [])"
  by (simp add: msg_run_chain name_chain_def select_body)
     (simp add: body_field_def withMessage_def notEmpty_def isEmpty_def)

lemma msg_price_chain:
  "map msg (run_chain req price_chain) =
   (if isNumeric (toString (field (body req) ''price'')) then [] else [msg_numeric]) @
   (if toString (field (body req) ''price'') = [] then [msg_price_empty] else []) @
   (if greaterThanZero (field (body req) ''price'') then [] else [msg_price])"
  by (simp add: msg_run_chain price_chain_def select_body)
     (simp add: body_field_def withMessage_def notEmpty_def isEmpty_def isNumericV_def custom_def)

lemma msg_availability_chain:
  "map msg (run_chain req availability_chain) =
   (if isBoolean (toString (field (body req) ''availability'')) then [] else [msg_availability])"
  by (simp add: msg_run_chain availability_chain_def select_body)
     (simp add: body_field_def withMessage_def isBooleanV_def)

lemma msg_id_chain:
  "map msg (run_chain req id_chain) = (if isInt (params_id req) then [] else [msg_id])"
  by (simp add: msg_run_chain id_chain_def select_id)
     (simp add: param_def withMessage_def isIntV_def)

lemma msg_post:
  "map msg (validationResult post_chains req) =
   map msg (run_chain req name_chain) @ map msg (run_chain req price_chain)"
  by (simp add: validationResult_def post_chains_def)

lemma msg_put:
  "map msg (validationResult put_chains req) =
   map msg (run_chain req id_chain) @ map msg (run_chain req name_chain) @
   map msg (run_chain req price_chain) @ map msg (run_chain req availability_chain)"
  by (simp add: validationResult_def put_chains_def)

lemma rejected_400:
  "map msg (validationResult cs req) \<noteq> [] \<Longrightarrow>
   response (validated cs handler req d) =
     \<lparr>status = 400, json = Errors (validationResult cs req)\<rparr>"
  by (auto simp: validated_def handleInputErrors_def respond_def)

text \<open>
  C1 (a validated route): every rule of every chain is tried and the messages
  of the rules that fail are the \<^verbatim>\<open>msg\<close> fields of the violations, in order; the
  violations are empty exactly when every rule passes; when they are not empty
  the answer is 400 with \<^verbatim>\<open>{errors: [...]}\<close>, whatever the handler is, and the
  state is as before; when they are empty the route is the handler.
\<close>

theorem validated_route:
  "map msg (validationResult cs req) =
     concat (map (\<lambda>c. map message (filter (\<lambda>r. \<not> passes r (select req c)) (rules c))) cs) \<and>
   ((validationResult cs req = []) =
     (\<forall>c \<in> set cs. \<forall>r \<in> set (rules c). passes r (select req c))) \<and>
   (validationResult cs req \<noteq> [] \<longrightarrow>
     validated cs handler req d = respond 400 (Errors (validationResult cs req)) d) \<and>
   (validationResult cs req = [] \<longrightarrow> validated cs handler req d = handler req d)"
  using msg_validationResult [of cs req] validationResult_empty [of cs req]
  by (simp add: validated_def handleInputErrors_def)

theorem validated_route_witness:
  "validationResult post_chains (empty_request []) \<noteq> [] \<and>
   route_post Product (empty_request []) one_product =
     respond 400 (Errors (validationResult post_chains (empty_request []))) one_product \<and>
   validationResult post_chains post_request = [] \<and>
   route_post Product post_request one_product = createProduct Product post_request one_product"
proof -
  have bad: "map msg (validationResult post_chains (empty_request [])) \<noteq> []"
    by (simp add: msg_post msg_name_chain empty_request_def field_empty)
  have "map msg (validationResult post_chains post_request) = []"
    by (simp add: msg_post msg_name_chain msg_price_chain post_request_def field_def
        isNumeric_50 greaterThanZero_50)
  then have good: "validationResult post_chains post_request = []"
    by simp
  show ?thesis
    using validated_route [of post_chains "empty_request []" "createProduct Product" one_product]
      validated_route [of post_chains post_request "createProduct Product" one_product]
      bad good
    by (auto simp: route_post_def)
qed

text \<open>
  C2 (validation of create): an empty body gives the four violations of name
  and price; a body with a name and the price 0 gives the one violation
  with the message \<open>msg_price\<close>; a body with a name and the price "Hola" gives two,
  not numeric and not above zero; each time the answer is 400.
\<close>

theorem create_validation:
  "(body req = [] \<longrightarrow>
      map msg (validationResult post_chains req) =
        [msg_name, msg_numeric, msg_price_empty, msg_price] \<and>
      length (validationResult post_chains req) = 4 \<and>
      status (response (route_post P req d)) = 400) \<and>
   (toString (field (body req) ''name'') \<noteq> [] \<and> field (body req) ''price'' = JNum 0 \<longrightarrow>
      map msg (validationResult post_chains req) = [msg_price] \<and>
      length (validationResult post_chains req) = 1 \<and>
      status (response (route_post P req d)) = 400) \<and>
   (toString (field (body req) ''name'') \<noteq> [] \<and> field (body req) ''price'' = JStr ''Hola'' \<longrightarrow>
      map msg (validationResult post_chains req) = [msg_numeric, msg_price] \<and>
      length (validationResult post_chains req) = 2 \<and>
      status (response (route_post P req d)) = 400)"
proof (intro conjI impI)
  assume e: "body req = []"
  show m: "map msg (validationResult post_chains req) =
      [msg_name, msg_numeric, msg_price_empty, msg_price]"
    by (simp add: msg_post msg_name_chain msg_price_chain e field_empty not_numeric_empty
        not_positive_undefined)
  show "length (validationResult post_chains req) = 4"
    using arg_cong [OF m, of length] by simp
  show "status (response (route_post P req d)) = 400"
    using rejected_400 [of post_chains req "createProduct P" d] m by (simp add: route_post_def)
next
  assume a: "toString (field (body req) ''name'') \<noteq> [] \<and> field (body req) ''price'' = JNum 0"
  show m: "map msg (validationResult post_chains req) = [msg_price]"
    using a by (simp add: msg_post msg_name_chain msg_price_chain toString_0 isNumeric_0
        not_positive_0 del: toString.simps)
  show "length (validationResult post_chains req) = 1"
    using arg_cong [OF m, of length] by simp
  show "status (response (route_post P req d)) = 400"
    using rejected_400 [of post_chains req "createProduct P" d] m by (simp add: route_post_def)
next
  assume a: "toString (field (body req) ''name'') \<noteq> [] \<and> field (body req) ''price'' = JStr ''Hola''"
  show m: "map msg (validationResult post_chains req) = [msg_numeric, msg_price]"
    using a by (simp add: msg_post msg_name_chain msg_price_chain not_numeric_Hola
        not_positive_Hola)
  show "length (validationResult post_chains req) = 2"
    using arg_cong [OF m, of length] by simp
  show "status (response (route_post P req d)) = 400"
    using rejected_400 [of post_chains req "createProduct P" d] m by (simp add: route_post_def)
qed

theorem create_validation_witness:
  "length (validationResult post_chains (empty_request [])) = 4 \<and>
   status (response (route_post Product (empty_request []) one_product)) = 400 \<and>
   map msg (validationResult post_chains (price_zero [])) = [msg_price] \<and>
   status (response (route_post Product (price_zero []) one_product)) = 400 \<and>
   map msg (validationResult post_chains price_hola) = [msg_numeric, msg_price] \<and>
   status (response (route_post Product price_hola one_product)) = 400"
  using create_validation [of "empty_request []" Product one_product]
    create_validation [of "price_zero []" Product one_product]
    create_validation [of price_hola Product one_product]
  by (simp add: empty_request_def price_zero_def price_hola_def field_def)

text \<open>
  C3 (validation of the full update, the id being an integer): an empty body
  gives five violations and the answer 400; a body with a name, a boolean
  availability and the price 0 gives the one violation with the message
  \<open>msg_price\<close> and the answer 400.
\<close>

theorem full_update_validation:
  assumes "isInt (params_id req)"
  shows "(body req = [] \<longrightarrow>
      map msg (validationResult put_chains req) =
        [msg_name, msg_numeric, msg_price_empty, msg_price, msg_availability] \<and>
      length (validationResult put_chains req) = 5 \<and>
      status (response (route_put P req d)) = 400) \<and>
   (toString (field (body req) ''name'') \<noteq> [] \<and> field (body req) ''price'' = JNum 0 \<and>
    field (body req) ''availability'' = JBool a \<longrightarrow>
      map msg (validationResult put_chains req) = [msg_price] \<and>
      length (validationResult put_chains req) = 1 \<and>
      status (response (route_put P req d)) = 400)"
proof (intro conjI impI)
  assume e: "body req = []"
  show m: "map msg (validationResult put_chains req) =
      [msg_name, msg_numeric, msg_price_empty, msg_price, msg_availability]"
    using assms
    by (simp add: msg_put msg_id_chain msg_name_chain msg_price_chain msg_availability_chain e
        field_empty not_numeric_empty not_positive_undefined not_boolean_empty)
  show "length (validationResult put_chains req) = 5"
    using arg_cong [OF m, of length] by simp
  show "status (response (route_put P req d)) = 400"
    using rejected_400 [of put_chains req "updateProduct P" d] m by (simp add: route_put_def)
next
  assume a: "toString (field (body req) ''name'') \<noteq> [] \<and> field (body req) ''price'' = JNum 0 \<and>
    field (body req) ''availability'' = JBool a"
  show m: "map msg (validationResult put_chains req) = [msg_price]"
    using a assms isBoolean_bool [of a]
    by (simp add: msg_put msg_id_chain msg_name_chain msg_price_chain msg_availability_chain
        toString_0 isNumeric_0 not_positive_0 del: toString.simps)
  show "length (validationResult put_chains req) = 1"
    using arg_cong [OF m, of length] by simp
  show "status (response (route_put P req d)) = 400"
    using rejected_400 [of put_chains req "updateProduct P" d] m by (simp add: route_put_def)
qed

theorem full_update_validation_witness:
  "isInt ''1'' \<and>
   length (validationResult put_chains (empty_request ''1'')) = 5 \<and>
   status (response (route_put Product (empty_request ''1'') one_product)) = 400 \<and>
   map msg (validationResult put_chains (price_zero ''1'')) = [msg_price] \<and>
   status (response (route_put Product (price_zero ''1'') one_product)) = 400"
proof -
  have i: "isInt ''1''"
    by (simp add: isInt_def digits1_def stripSign_def isDigit_def)
  show ?thesis
    using i
      full_update_validation
        [where req = "empty_request ''1''" and P = Product and d = one_product]
      full_update_validation
        [where req = "price_zero ''1''" and a = True and P = Product and d = one_product]
    by (simp add: empty_request_def price_zero_def field_def)
qed

end
